theory Spec2Isabelle
  imports Main
begin

section \<open>Strings, bytes and the library functions of \<^verbatim>\<open>starlette/response.py\<close>\<close>

text \<open>
  A Python \<^verbatim>\<open>bytes\<close> value is a list of 8-bit characters. A Python \<^verbatim>\<open>str\<close> in a
  header position is modelled over the code points 0..255 (the latin-1 repertoire), which
  is the domain on which \<^verbatim>\<open>s.encode("latin-1")\<close> is defined: header names, header
  values and media types are encoded that way by the source. On this domain the latin-1
  encoding maps every code point to the byte of the same number. The text of a body or of
  a chunk is a \<^verbatim>\<open>str\<close> over all of Unicode: the list of its code points, each below
  0x110000.
\<close>

type_synonym bytes = "char list"
type_synonym str = "char list"
type_synonym ustr = "nat list"

datatype error = AttributeError | UnicodeEncodeError | TypeError | OSError

text \<open>\<^verbatim>\<open>str.lower()\<close> on the code points 0..255: A-Z and the upper-case letters
  0xC0..0xDE (without the multiplication sign 0xD7) move up by 32.\<close>

definition lower_char :: "char \<Rightarrow> char" where
  "lower_char c =
     (let n = (of_char c :: nat)
      in if (65 \<le> n \<and> n \<le> 90) \<or> (192 \<le> n \<and> n \<le> 222 \<and> n \<noteq> 215)
         then char_of (n + 32) else c)"

definition lower :: "str \<Rightarrow> str" where
  "lower s = map lower_char s"

definition encode_latin1 :: "str \<Rightarrow> bytes" where
  "encode_latin1 s = s"

text \<open>\<^verbatim>\<open>s.encode("utf-8")\<close> on the code points 0..255: one byte below 128, two bytes
  from 128 on.\<close>

definition encode_utf8_char :: "char \<Rightarrow> bytes" where
  "encode_utf8_char c =
     (let n = (of_char c :: nat)
      in if n < 128 then [c] else [char_of (192 + n div 64), char_of (128 + n mod 64)])"

definition encode_utf8 :: "str \<Rightarrow> bytes" where
  "encode_utf8 s = concat (map encode_utf8_char s)"

text \<open>
  \<^verbatim>\<open>s.encode("utf-8")\<close> on a text of any code points, as Python's strict encoder
  does it: one to four bytes for a code point, and \<^verbatim>\<open>UnicodeEncodeError\<close> at a
  surrogate (0xD800..0xDFFF). The last branch is for the code points from 0x10000 up to
  0x10FFFF.
\<close>

definition is_surrogate :: "nat \<Rightarrow> bool" where
  "is_surrogate c = (0xD800 \<le> c \<and> c \<le> 0xDFFF)"

definition utf8_bytes :: "nat \<Rightarrow> bytes" where
  "utf8_bytes c =
     (if c < 0x80 then [char_of c]
      else if c < 0x800 then [char_of (0xC0 + c div 64), char_of (0x80 + c mod 64)]
      else if c < 0x10000 then
        [char_of (0xE0 + c div 4096), char_of (0x80 + c div 64 mod 64), char_of (0x80 + c mod 64)]
      else
        [char_of (0xF0 + c div 262144), char_of (0x80 + c div 4096 mod 64),
         char_of (0x80 + c div 64 mod 64), char_of (0x80 + c mod 64)])"

fun encode_text :: "ustr \<Rightarrow> error + bytes" where
  "encode_text [] = Inr []"
| "encode_text (c # cs) =
     (if is_surrogate c then Inl UnicodeEncodeError
      else case encode_text cs of
             Inl e \<Rightarrow> Inl e
           | Inr bs \<Rightarrow> Inr (utf8_bytes c @ bs))"

text \<open>The text whose code points are those of a string over 0..255.\<close>

definition unicode :: "str \<Rightarrow> ustr" where
  "unicode s = map of_char s"

text \<open>\<^verbatim>\<open>str(n)\<close> for a Python int: the decimal digits, with a minus sign when negative.\<close>

definition digit_char :: "nat \<Rightarrow> char" where
  "digit_char d = ''0123456789'' ! d"

function str_nat :: "nat \<Rightarrow> str" where
  "str_nat n = (if n < 10 then [digit_char n] else str_nat (n div 10) @ [digit_char (n mod 10)])"
  by pat_completeness auto
termination
  by (relation "measure (\<lambda>n. n)") auto

declare str_nat.simps [simp del]

definition str_int :: "int \<Rightarrow> str" where
  "str_int i = (if i < 0 then CHR ''-'' # str_nat (nat (- i)) else str_nat (nat i))"

text \<open>\<^verbatim>\<open>s.startswith(p)\<close>.\<close>

definition startswith :: "str \<Rightarrow> str \<Rightarrow> bool" where
  "startswith s p = (take (length p) s = p)"

section \<open>Response\<close>

text \<open>The class attribute \<^verbatim>\<open>charset = "utf-8"\<close>; no class of the file overrides it.\<close>

definition charset :: str where
  "charset = ''utf-8''"

text \<open>The content handed to a constructor, or a chunk of a stream: \<^verbatim>\<open>bytes\<close>,
  \<^verbatim>\<open>str\<close> (a text of any code points), or an object of another type, which has no
  \<^verbatim>\<open>encode\<close> method.\<close>

datatype content = Bytes bytes | Str ustr | Other

text \<open>\<^verbatim>\<open>content.encode(self.charset)\<close>, reached only when the content is not
  \<^verbatim>\<open>bytes\<close>: the strict utf-8 encoding of a \<^verbatim>\<open>str\<close>, and
  \<^verbatim>\<open>AttributeError\<close> for an object without \<^verbatim>\<open>encode\<close>.\<close>

fun encode_content :: "content \<Rightarrow> error + bytes" where
  "encode_content (Str s) = encode_text s"
| "encode_content _ = Inl AttributeError"

fun render :: "content \<Rightarrow> error + bytes" where
  "render (Bytes b) = Inr b"
| "render c = encode_content c"

type_synonym raw_headers = "(bytes \<times> bytes) list"

text \<open>
  \<^verbatim>\<open>init_headers\<close>. The arguments are \<^verbatim>\<open>getattr(self, "body", None)\<close>,
  \<^verbatim>\<open>self.media_type\<close> and the caller's \<^verbatim>\<open>headers\<close>: a dict, given as the list of
  its items in insertion order (its keys are pairwise different), or \<^verbatim>\<open>None\<close>.
\<close>

definition init_headers :: "bytes option \<Rightarrow> str option \<Rightarrow> (str \<times> str) list option \<Rightarrow> raw_headers" where
  "init_headers body media_type headers =
     (let (raw_headers, populate_content_length, populate_content_type) =
            (case headers of
               None \<Rightarrow> ([], True, True)
             | Some hs \<Rightarrow>
                 (let raw_headers = map (\<lambda>(k, v). (encode_latin1 (lower k), encode_latin1 v)) hs;
                      keys = map fst raw_headers
                  in (raw_headers, ''content-length'' \<in> set keys, ''content-type'' \<in> set keys)));
          raw_headers =
            (case body of
               Some b \<Rightarrow>
                 if populate_content_length
                 then raw_headers @ [(''content-length'', encode_latin1 (str_int (int (length b))))]
                 else raw_headers
             | None \<Rightarrow> raw_headers);
          raw_headers =
            (case media_type of
               Some content_type \<Rightarrow>
                 if populate_content_type
                 then raw_headers @
                   [(''content-type'',
                     encode_latin1 (if startswith content_type ''text/''
                                    then content_type @ ''; charset='' @ charset
                                    else content_type))]
                 else raw_headers
             | None \<Rightarrow> raw_headers)
      in raw_headers)"

record response_base =
  status_code :: int
  media_type :: "str option"
  raw_headers :: raw_headers

record response = response_base +
  body :: bytes

text \<open>
  \<^verbatim>\<open>Response.__init__\<close>. The first argument is the class attribute
  \<^verbatim>\<open>media_type\<close> of the class that is instantiated: \<^verbatim>\<open>None\<close> for
  \<^verbatim>\<open>Response\<close>, \<^verbatim>\<open>"text/html"\<close> for \<^verbatim>\<open>HTMLResponse\<close>, \<^verbatim>\<open>"text/plain"\<close> for
  \<^verbatim>\<open>PlainTextResponse\<close>.
\<close>

definition Response_init ::
  "str option \<Rightarrow> content \<Rightarrow> int \<Rightarrow> (str \<times> str) list option \<Rightarrow> str option \<Rightarrow> error + response" where
  "Response_init cls_media_type content status headers mt =
     (case render content of
        Inl e \<Rightarrow> Inl e
      | Inr b \<Rightarrow>
          (let m = (case mt of Some x \<Rightarrow> Some x | None \<Rightarrow> cls_media_type)
           in Inr \<lparr>status_code = status, media_type = m,
                   raw_headers = init_headers (Some b) m headers, body = b\<rparr>))"

text \<open>
  The messages a response hands to \<^verbatim>\<open>send\<close>. A body message carries the key
  \<^verbatim>\<open>more_body\<close> only when the source writes it.
\<close>

datatype message =
    Start int raw_headers
  | Body bytes "bool option"

definition Response_call :: "response \<Rightarrow> message list" where
  "Response_call r = [Start (status_code r) (raw_headers r), Body (body r) None]"

section \<open>StreamingResponse\<close>

text \<open>
  The object given to \<^verbatim>\<open>StreamingResponse\<close> as content. \<^verbatim>\<open>Async\<close> is an
  asynchronous iterable (it has \<^verbatim>\<open>__aiter__\<close>) with the finite sequence of chunks it
  produces. \<^verbatim>\<open>Sync\<close> is a synchronous iterable with its chunks: a list, a tuple, a
  generator; it has no \<^verbatim>\<open>__aiter__\<close>.
\<close>

datatype producer = Async "content list" | Sync "content list"

record streaming_response = response_base +
  body_iterator :: producer

text \<open>
  \<^verbatim>\<open>StreamingResponse.__init__\<close>. No \<^verbatim>\<open>body\<close> attribute is set, so
  \<^verbatim>\<open>init_headers\<close> finds \<^verbatim>\<open>getattr(self, "body", None)\<close> to be \<^verbatim>\<open>None\<close>.
\<close>

definition StreamingResponse_init ::
  "str option \<Rightarrow> producer \<Rightarrow> int \<Rightarrow> (str \<times> str) list option \<Rightarrow> str option \<Rightarrow> streaming_response" where
  "StreamingResponse_init cls_media_type content status headers mt =
     (let m = (case mt of None \<Rightarrow> cls_media_type | Some x \<Rightarrow> Some x)
      in \<lparr>status_code = status, media_type = m,
           raw_headers = init_headers None m headers, body_iterator = content\<rparr>)"

text \<open>
  The loop \<^verbatim>\<open>async for chunk in self.body_iterator\<close> over the chunks of an
  asynchronous iterable, with the send that follows it: the messages sent, and the
  exception that ended the call, if any.
\<close>

fun stream_chunks :: "content list \<Rightarrow> message list \<times> error option" where
  "stream_chunks [] = ([Body [] (Some False)], None)"
| "stream_chunks (chunk # rest) =
     (case (case chunk of Bytes b \<Rightarrow> Inr b | _ \<Rightarrow> encode_content chunk) of
        Inl e \<Rightarrow> ([], Some e)
      | Inr b \<Rightarrow>
          (let (ms, e) = stream_chunks rest
           in (Body b (Some True) # ms, e)))"

text \<open>
  \<^verbatim>\<open>StreamingResponse.__call__\<close>. The start message is sent first; then
  \<^verbatim>\<open>async for\<close> asks the content for \<^verbatim>\<open>__aiter__\<close> and raises
  \<^verbatim>\<open>TypeError\<close> when it has none.
\<close>

definition StreamingResponse_call :: "streaming_response \<Rightarrow> message list \<times> error option" where
  "StreamingResponse_call r =
     (case body_iterator r of
        Sync chunks \<Rightarrow> ([Start (status_code r) (raw_headers r)], Some TypeError)
      | Async chunks \<Rightarrow>
          (let (ms, e) = stream_chunks chunks
           in (Start (status_code r) (raw_headers r) # ms, e)))"

text \<open>A chunk that the loop can send: \<^verbatim>\<open>bytes\<close>, or a \<^verbatim>\<open>str\<close> without a
  surrogate.\<close>

fun encodable :: "content \<Rightarrow> bool" where
  "encodable (Bytes b) = True"
| "encodable (Str s) = (\<not> list_ex is_surrogate s)"
| "encodable Other = False"

section \<open>FileResponse\<close>

text \<open>
  \<^verbatim>\<open>os.stat_result\<close>: the two fields the source reads. \<^verbatim>\<open>st_mtime\<close> is a Python
  float; its type is left open.
\<close>

record 't stat_result =
  st_size :: int
  st_mtime :: 't

text \<open>
  The functions of the Python standard library that \<^verbatim>\<open>FileResponse\<close> calls, taken as
  parameters: \<^verbatim>\<open>guess_type(name)[0]\<close> of \<^verbatim>\<open>mimetypes\<close>,
  \<^verbatim>\<open>formatdate(t, usegmt=True)\<close> of \<^verbatim>\<open>email.utils\<close>, \<^verbatim>\<open>str(t)\<close> of a float and
  \<^verbatim>\<open>hashlib.md5(b).hexdigest()\<close>.
\<close>

record 't stdlib =
  guess_type :: "str \<Rightarrow> str option"
  formatdate :: "'t \<Rightarrow> str"
  str_float :: "'t \<Rightarrow> str"
  md5_hexdigest :: "bytes \<Rightarrow> str"

text \<open>
  The file system at the time of a transmission: \<^verbatim>\<open>aio_stat(path)\<close>, and the bytes
  of the file that \<^verbatim>\<open>aiofiles.open(path, mode="rb")\<close> gives to read; either may raise.
\<close>

record 't filesystem =
  aio_stat :: "str \<Rightarrow> error + 't stat_result"
  open_rb :: "str \<Rightarrow> error + bytes"

text \<open>
  Modelled from the spec: \<^verbatim>\<open>MutableHeaders.setdefault\<close> of
  \<^verbatim>\<open>starlette.datastructures\<close>, which is not among the sources. The spec describes an
  ordered, case-insensitive header container backed by the very sequence that is
  transmitted, whose set-if-absent operation checks the already synthesized sequence and
  does not duplicate an existing case-insensitive name; names and values are stored as
  lower-cased latin-1 bytes and latin-1 bytes. The property \<^verbatim>\<open>self.headers\<close> wraps
  \<^verbatim>\<open>self.raw_headers\<close>, so the operation is a function on that sequence.
\<close>

definition setdefault :: "raw_headers \<Rightarrow> str \<Rightarrow> str \<Rightarrow> raw_headers" where
  "setdefault hs key val =
     (if lower key \<in> set (map (\<lambda>h. lower (fst h)) hs) then hs
      else hs @ [(encode_latin1 (lower key), encode_latin1 val)])"

definition set_stat_headers :: "'t stdlib \<Rightarrow> raw_headers \<Rightarrow> 't stat_result \<Rightarrow> raw_headers" where
  "set_stat_headers lib hs st =
     (let content_length = str_int (st_size st);
          last_modified = formatdate lib (st_mtime st);
          etag_base = str_float lib (st_mtime st) @ ''-'' @ str_int (st_size st);
          etag = md5_hexdigest lib (encode_utf8 etag_base);
          hs = setdefault hs ''content-length'' content_length;
          hs = setdefault hs ''last-modified'' last_modified;
          hs = setdefault hs ''etag'' etag
      in hs)"

record 't file_response = response_base +
  path :: str
  filename :: "str option"
  stat_result :: "'t stat_result option"

text \<open>\<^verbatim>\<open>'attachment; filename="{}"'.format(filename)\<close>; the byte 0x22 is the double
  quote.\<close>

definition content_disposition :: "str \<Rightarrow> str" where
  "content_disposition name = ''attachment; filename='' @ [CHR 0x22] @ name @ [CHR 0x22]"

text \<open>
  \<^verbatim>\<open>FileResponse.__init__\<close>. It takes no status code. \<^verbatim>\<open>filename or path\<close> is the
  path when the file name is \<^verbatim>\<open>None\<close> or empty, and \<^verbatim>\<open>... or "text/plain"\<close>
  replaces a guess that is \<^verbatim>\<open>None\<close> or empty.
\<close>

definition FileResponse_init ::
  "'t stdlib \<Rightarrow> str \<Rightarrow> (str \<times> str) list option \<Rightarrow> str option \<Rightarrow> str option \<Rightarrow>
   't stat_result option \<Rightarrow> 't file_response" where
  "FileResponse_init lib p headers mt fname st =
     (let m = (case mt of
                 Some x \<Rightarrow> x
               | None \<Rightarrow>
                   (case guess_type lib
                           (case fname of Some f \<Rightarrow> if f \<noteq> [] then f else p | None \<Rightarrow> p) of
                      Some g \<Rightarrow> if g \<noteq> [] then g else ''text/plain''
                    | None \<Rightarrow> ''text/plain''));
          hs = init_headers None (Some m) headers;
          hs = (case fname of
                  Some f \<Rightarrow> setdefault hs ''content-disposition'' (content_disposition f)
                | None \<Rightarrow> hs);
          hs = (case st of Some s \<Rightarrow> set_stat_headers lib hs s | None \<Rightarrow> hs)
      in \<lparr>status_code = 200, media_type = Some m, raw_headers = hs,
           path = p, filename = fname, stat_result = st\<rparr>)"

definition chunk_size :: nat where
  "chunk_size = 4096"

text \<open>
  The loop \<^verbatim>\<open>while more_body\<close> over the bytes still unread: \<^verbatim>\<open>file.read(chunk_size)\<close>
  takes the next \<^verbatim>\<open>chunk_size\<close> bytes, or all that is left. Every message is sent with
  \<^verbatim>\<open>"more_body": False\<close>, as the source writes it.
\<close>

function read_loop :: "bytes \<Rightarrow> message list" where
  "read_loop data =
     (let chunk = take chunk_size data;
          more_body = (length chunk = chunk_size)
      in Body chunk (Some False) # (if more_body then read_loop (drop chunk_size data) else []))"
  by pat_completeness auto
termination
  by (relation "measure length") (auto simp: chunk_size_def)

declare read_loop.simps [simp del]

text \<open>
  What a transmission does, in order: the call of \<^verbatim>\<open>aio_stat\<close> and the messages sent.
\<close>

datatype event = Stat str | Send message

text \<open>
  \<^verbatim>\<open>FileResponse.__call__\<close>: the events, and the exception that ended the call, if
  any.
\<close>

definition FileResponse_call ::
  "'t stdlib \<Rightarrow> 't filesystem \<Rightarrow> 't file_response \<Rightarrow> event list \<times> error option" where
  "FileResponse_call lib fs r =
     (case (case stat_result r of
              None \<Rightarrow>
                (case aio_stat fs (path r) of
                   Inl e \<Rightarrow> Inl e
                 | Inr st \<Rightarrow> Inr ([Stat (path r)], set_stat_headers lib (raw_headers r) st))
            | Some _ \<Rightarrow> Inr ([], raw_headers r)) of
        Inl e \<Rightarrow> ([Stat (path r)], Some e)
      | Inr (evs, hs) \<Rightarrow>
          (let evs = evs @ [Send (Start (status_code r) hs)]
           in case open_rb fs (path r) of
                Inl e \<Rightarrow> (evs, Some e)
              | Inr data \<Rightarrow> (evs @ map Send (read_loop data), None)))"

text \<open>
  The continuation flag of a body message as the channel reads it: the key
  \<^verbatim>\<open>more_body\<close>, and \<^verbatim>\<open>False\<close> when the message has none.
\<close>

fun more :: "message \<Rightarrow> bool" where
  "more (Body b (Some m)) = m"
| "more _ = False"

fun is_body :: "message \<Rightarrow> bool" where
  "is_body (Body b m) = True"
| "is_body _ = False"

definition terminal :: "message \<Rightarrow> bool" where
  "terminal m = (is_body m \<and> \<not> more m)"

text \<open>The status codes of the start messages among the events of a transmission.\<close>

fun start_statuses :: "event list \<Rightarrow> int list" where
  "start_statuses [] = []"
| "start_statuses (Send (Start s h) # es) = s # start_statuses es"
| "start_statuses (e # es) = start_statuses es"

text \<open>Whether the caller's \<^verbatim>\<open>headers\<close> name a header, in any case.\<close>

definition supplies :: "(str \<times> str) list option \<Rightarrow> str \<Rightarrow> bool" where
  "supplies headers name =
     (case headers of None \<Rightarrow> False | Some hs \<Rightarrow> name \<in> set (map (\<lambda>h. lower (fst h)) hs))"

text \<open>
  The example of the specification: a file \<^verbatim>\<open>x.txt\<close> of 10 bytes with modification
  time 1000.0 (written 1000 here), and the values of the library functions at the
  arguments that the example reaches.
\<close>

definition example_lib :: "int stdlib" where
  "example_lib =
     \<lparr>guess_type = (\<lambda>name. if name = ''x.txt'' then Some ''text/plain'' else None),
      formatdate = (\<lambda>t. if t = 1000 then ''Thu, 01 Jan 1970 00:16:40 GMT'' else []),
      str_float = (\<lambda>t. if t = 1000 then ''1000.0'' else []),
      md5_hexdigest =
        (\<lambda>b. if b = ''1000.0-10'' then ''e80786ba5d5115a725663846526304be'' else [])\<rparr>"

definition example_stat :: "int stat_result" where
  "example_stat = \<lparr>st_size = 10, st_mtime = 1000\<rparr>"

definition example_fs :: "int filesystem" where
  "example_fs =
     \<lparr>aio_stat = (\<lambda>p. if p = ''x.txt'' then Inr example_stat else Inl OSError),
      open_rb = (\<lambda>p. if p = ''x.txt'' then Inr ''0123456789'' else Inl OSError)\<rparr>"

section \<open>Header synthesis\<close>

text \<open>The string functions at sample arguments: \<^verbatim>\<open>"Content-Length".lower()\<close>,
  \<^verbatim>\<open>str(4097)\<close>, \<^verbatim>\<open>str(-12)\<close> and the utf-8 encoding of U+00E9.\<close>

lemma string_function_samples:
  "lower ''Content-Length'' = ''content-length''"
  "str_int 4097 = ''4097''"
  "str_int (- 12) = ''-12''"
  "encode_utf8 [CHR 0xE9] = [CHR 0xC3, CHR 0xA9]"
  by code_simp+

lemma lower_char_idem: "lower_char (lower_char c) = lower_char c"
  by (auto simp: lower_char_def Let_def)

lemma lower_idem: "lower (lower s) = lower s"
  by (simp add: lower_def lower_char_idem)

lemma lower_content_length: "lower ''content-length'' = ''content-length''"
  by code_simp

lemma lower_content_type: "lower ''content-type'' = ''content-type''"
  by code_simp

lemma init_headers_None:
  "init_headers bdy mt None =
     (case bdy of Some b \<Rightarrow> [(''content-length'', str_int (int (length b)))] | None \<Rightarrow> []) @
     (case mt of
        Some m \<Rightarrow> [(''content-type'', if startswith m ''text/'' then m @ ''; charset=utf-8'' else m)]
      | None \<Rightarrow> [])"
  by (simp add: init_headers_def encode_latin1_def charset_def split: option.splits)

lemma init_headers_Some:
  "init_headers bdy mt (Some hs) =
     map (\<lambda>(k, v). (lower k, v)) hs @
     (case bdy of
        Some b \<Rightarrow>
          if ''content-length'' \<in> set (map (\<lambda>h. lower (fst h)) hs)
          then [(''content-length'', str_int (int (length b)))] else []
      | None \<Rightarrow> []) @
     (case mt of
        Some m \<Rightarrow>
          if ''content-type'' \<in> set (map (\<lambda>h. lower (fst h)) hs)
          then [(''content-type'', if startswith m ''text/'' then m @ ''; charset=utf-8'' else m)]
          else []
      | None \<Rightarrow> [])"
  by (auto simp: init_headers_def encode_latin1_def charset_def Let_def case_prod_unfold image_iff
           split: option.splits)


text \<open>
  C5. A \<^verbatim>\<open>Response\<close> built from content of type \<^verbatim>\<open>bytes\<close> with
  \<^verbatim>\<open>headers=None\<close> is built without error, and its header sequence is a
  content-length header whose value is \<^verbatim>\<open>str(len(c))\<close>, followed, when a media type
  is set (by the argument, or else by the class), by a content-type header. The value of
  that header is the media type followed by \<^verbatim>\<open>; charset=utf-8\<close> when the media type
  starts with \<^verbatim>\<open>text/\<close>, and the media type alone when it does not.
\<close>

theorem Response_init_bytes_no_headers:
  "Response_init cls (Bytes c) status None mt =
     Inr \<lparr>status_code = status,
          media_type = (case mt of Some x \<Rightarrow> Some x | None \<Rightarrow> cls),
          raw_headers =
            (''content-length'', str_int (int (length c))) #
            (case (case mt of Some x \<Rightarrow> Some x | None \<Rightarrow> cls) of
               None \<Rightarrow> []
             | Some m \<Rightarrow>
                 [(''content-type'',
                   if startswith m ''text/'' then m @ ''; charset='' @ charset else m)]),
          body = c\<rparr>"
  by (simp add: Response_init_def init_headers_None charset_def split: option.splits)

text \<open>
  C1. The claim is that a caller's \<^verbatim>\<open>Content-Length: 999\<close> suppresses the computed
  header. \<^verbatim>\<open>init_headers\<close> sets \<^verbatim>\<open>populate_content_length\<close> to
  \<^verbatim>\<open>b"content-length" in keys\<close>, so the computed header is appended exactly when the
  caller supplied one: with a 2-byte body the sequence holds both \<^verbatim>\<open>999\<close> and
  \<^verbatim>\<open>2\<close>.
\<close>

theorem Response_init_content_length_duplicated:
  "Response_init None (Bytes ''hi'') 200 (Some [(''Content-Length'', ''999'')]) None =
     Inr \<lparr>status_code = 200, media_type = None,
          raw_headers = [(''content-length'', ''999''), (''content-length'', ''2'')],
          body = ''hi''\<rparr>"
  by code_simp

text \<open>
  C3, as stated, fails: the keys \<^verbatim>\<open>"X-Token"\<close> and \<^verbatim>\<open>"x-token"\<close> of a caller's
  dict are different keys, and \<^verbatim>\<open>init_headers\<close> lower-cases both and keeps both.
\<close>

theorem init_headers_duplicate_names:
  "\<not> distinct (map (\<lambda>h. lower (fst h))
        (init_headers (Some ''hi'') None (Some [(''X-Token'', ''1''), (''x-token'', ''2'')])))"
  by code_simp

text \<open>The names of the synthesized sequence.\<close>

lemma init_headers_None_names:
  "map fst (init_headers bdy mt None) =
     (case bdy of Some b \<Rightarrow> [''content-length''] | None \<Rightarrow> []) @
     (case mt of Some m \<Rightarrow> [''content-type''] | None \<Rightarrow> [])"
  by (simp add: init_headers_None split: option.splits)

lemma init_headers_Some_names:
  "map fst (init_headers bdy mt (Some hs)) =
     map (\<lambda>h. lower (fst h)) hs @
     (case bdy of
        Some b \<Rightarrow> if ''content-length'' \<in> set (map (\<lambda>h. lower (fst h)) hs)
                  then [''content-length''] else []
      | None \<Rightarrow> []) @
     (case mt of
        Some m \<Rightarrow> if ''content-type'' \<in> set (map (\<lambda>h. lower (fst h)) hs)
                  then [''content-type''] else []
      | None \<Rightarrow> [])"
  by (simp add: init_headers_Some case_prod_unfold split: option.splits)

text \<open>
  C3, amended. When no headers are supplied, or when the supplied names are pairwise
  different after lower-casing and none of them is \<^verbatim>\<open>content-length\<close> or
  \<^verbatim>\<open>content-type\<close> after lower-casing, no two entries of the synthesized sequence
  have names that are equal after lower-casing; this holds for every body (or none) and
  every media type (or none).
\<close>

theorem init_headers_names_distinct:
  assumes "case headers of
             None \<Rightarrow> True
           | Some hs \<Rightarrow>
               distinct (map (\<lambda>h. lower (fst h)) hs) \<and>
               ''content-length'' \<notin> set (map (\<lambda>h. lower (fst h)) hs) \<and>
               ''content-type'' \<notin> set (map (\<lambda>h. lower (fst h)) hs)"
  shows "distinct (map (\<lambda>h. lower (fst h)) (init_headers bdy mt headers))"
proof -
  have split_map: "map (\<lambda>h. lower (fst h)) (init_headers bdy mt headers) =
      map lower (map fst (init_headers bdy mt headers))"
    by simp
  show ?thesis
  proof (cases headers)
    case None
    have "lower ''content-length'' \<noteq> lower ''content-type''"
      by code_simp
    with None show ?thesis
      unfolding split_map by (simp add: init_headers_None_names split: option.splits)
  next
    case (Some hs)
    from Some assms have "map fst (init_headers bdy mt headers) = map (\<lambda>h. lower (fst h)) hs"
      by (simp add: init_headers_Some_names split: option.splits)
    then have "map lower (map fst (init_headers bdy mt headers)) =
        map (\<lambda>h. lower (lower (fst h))) hs"
      by (simp add: comp_def)
    also have "\<dots> = map (\<lambda>h. lower (fst h)) hs"
      by (simp add: lower_idem)
    finally show ?thesis
      unfolding split_map using Some assms by simp
  qed
qed

theorem init_headers_names_distinct_witness:
  "(case Some [(''X-Token'', ''1''), (''Accept'', ''2'')] of
      None \<Rightarrow> True
    | Some hs \<Rightarrow>
        distinct (map (\<lambda>h. lower (fst h)) hs) \<and>
        ''content-length'' \<notin> set (map (\<lambda>h. lower (fst h)) hs) \<and>
        ''content-type'' \<notin> set (map (\<lambda>h. lower (fst h)) hs)) \<and>
   distinct (map (\<lambda>h. lower (fst h))
     (init_headers (Some ''hi'') (Some ''text/html'') (Some [(''X-Token'', ''1''), (''Accept'', ''2'')])))"
proof -
  have h: "case Some [(''X-Token'', ''1''), (''Accept'', ''2'')] of
      None \<Rightarrow> True
    | Some hs \<Rightarrow>
        distinct (map (\<lambda>h. lower (fst h)) hs) \<and>
        ''content-length'' \<notin> set (map (\<lambda>h. lower (fst h)) hs) \<and>
        ''content-type'' \<notin> set (map (\<lambda>h. lower (fst h)) hs)"
    by code_simp
  from init_headers_names_distinct [OF h, of "Some ''hi''" "Some ''text/html''"] h
  show ?thesis by (rule conjI [rotated])
qed

section \<open>Rendering and transmission of a Response\<close>

text \<open>The strict utf-8 encoder fails exactly on a text with a surrogate, and otherwise
  joins the encodings of the code points; on a text over 0..255 it gives what the encoder
  of the strings over 0..255 gives.\<close>

lemma encode_text_eq:
  "encode_text s =
     (if list_ex is_surrogate s then Inl UnicodeEncodeError
      else Inr (concat (map utf8_bytes s)))"
  by (induction s) simp_all

lemma utf8_bytes_of_char: "utf8_bytes (of_char c) = encode_utf8_char c"
proof -
  have "utf8_bytes n =
      (if n < 128 then [char_of n] else [char_of (192 + n div 64), char_of (128 + n mod 64)])"
    if "n < 256" for n
    using that by (simp add: utf8_bytes_def)
  then show ?thesis
    by (simp add: encode_utf8_char_def Let_def)
qed

lemma unicode_no_surrogate: "\<not> list_ex is_surrogate (unicode s)"
proof -
  have "\<not> is_surrogate n" if "n < 256" for n
    using that by (simp add: is_surrogate_def)
  then show ?thesis
    by (simp add: unicode_def list_ex_iff)
qed

lemma encode_text_unicode: "encode_text (unicode s) = Inr (encode_utf8 s)"
  using unicode_no_surrogate [of s]
  by (simp add: encode_text_eq) (simp add: unicode_def encode_utf8_def comp_def utf8_bytes_of_char)

lemma encode_text_samples:
  "encode_text [0x41] = Inr [CHR 0x41]"
  "encode_text [0xE9] = Inr [CHR 0xC3, CHR 0xA9]"
  "encode_text [0x20AC] = Inr [CHR 0xE2, CHR 0x82, CHR 0xAC]"
  "encode_text [0x1F600] = Inr [CHR 0xF0, CHR 0x9F, CHR 0x98, CHR 0x80]"
  by (simp_all add: is_surrogate_def utf8_bytes_def char_of_eq_iff)

text \<open>
  C9, as stated, fails: content that is text is not always returned encoded. The text
  \<^verbatim>\<open>"\ud800"\<close>, a lone surrogate, has no utf-8 encoding: \<^verbatim>\<open>content.encode\<close>
  raises \<^verbatim>\<open>UnicodeEncodeError\<close>, and so does the constructor.
\<close>

theorem render_surrogate_fails:
  "render (Str [0xD800]) = Inl UnicodeEncodeError \<and>
   Response_init None (Str [0xD800]) 200 None None = Inl UnicodeEncodeError"
  by (simp add: Response_init_def is_surrogate_def)

text \<open>
  C9, amended. \<^verbatim>\<open>render\<close> returns content of type \<^verbatim>\<open>bytes\<close> unchanged. For
  content of type \<^verbatim>\<open>str\<close> it returns the utf-8 encoding of the text (the encodings
  of its code points, joined) when the text has no surrogate, and raises
  \<^verbatim>\<open>UnicodeEncodeError\<close> when it has one. For content of any other type it raises
  \<^verbatim>\<open>AttributeError\<close>, since the content has no \<^verbatim>\<open>encode\<close>. The constructor
  calls \<^verbatim>\<open>render\<close> first and catches nothing: for every content it fails with the
  exception of \<^verbatim>\<open>render\<close>, or builds a response whose body is what \<^verbatim>\<open>render\<close>
  returned. The utf-8 encodings of U+00E9, U+20AC and U+1F600 have two, three and four
  bytes.
\<close>

theorem render_cases:
  "render (Bytes b) = Inr b \<and>
   render (Str s) =
     (if list_ex is_surrogate s then Inl UnicodeEncodeError
      else Inr (concat (map utf8_bytes s))) \<and>
   render Other = Inl AttributeError \<and>
   map_sum id body (Response_init cls c status headers mt) = render c \<and>
   render (Str [0xE9]) = Inr [CHR 0xC3, CHR 0xA9] \<and>
   render (Str [0x20AC]) = Inr [CHR 0xE2, CHR 0x82, CHR 0xAC] \<and>
   render (Str [0x1F600]) = Inr [CHR 0xF0, CHR 0x9F, CHR 0x98, CHR 0x80]"
proof -
  have "map_sum id body (Response_init cls c status headers mt) = render c"
    by (simp add: Response_init_def Let_def split: sum.splits)
  then show ?thesis
    by (simp add: encode_text_eq [symmetric] encode_text_samples del: encode_text.simps)
qed

text \<open>
  C8. The transmission of a \<^verbatim>\<open>Response\<close> sends the start message with the status code
  and the header sequence, then one body message with the whole rendered body, and nothing
  more. The body message has no \<^verbatim>\<open>more_body\<close> key, which the channel reads as
  \<^verbatim>\<open>False\<close>: it is the one body message, it is terminal, and it is the last message.
\<close>

theorem Response_call_messages:
  "Response_call r = [Start (status_code r) (raw_headers r), Body (body r) None] \<and>
   filter is_body (Response_call r) = [Body (body r) None] \<and>
   filter terminal (Response_call r) = [Body (body r) None] \<and>
   terminal (last (Response_call r))"
  by (simp add: Response_call_def terminal_def)

section \<open>Transmission of a StreamingResponse\<close>

lemma encodable_render: "encodable c \<longleftrightarrow> \<not> isl (render c)"
  by (cases c) (simp_all add: encode_text_eq)

lemma stream_chunks_all_encodable:
  "list_all encodable chunks \<Longrightarrow>
   stream_chunks chunks =
     (map (\<lambda>c. Body (projr (render c)) (Some True)) chunks @ [Body [] (Some False)], None)"
proof (induction chunks)
  case Nil
  show ?case by simp
next
  case (Cons c cs)
  then have rest: "stream_chunks cs =
      (map (\<lambda>c. Body (projr (render c)) (Some True)) cs @ [Body [] (Some False)], None)"
    by simp
  from Cons.prems have "encodable c"
    by simp
  then show ?case
    by (cases c) (simp_all add: rest encode_text_eq)
qed

lemma filter_terminal_non_terminal:
  "filter terminal (map (\<lambda>c. Body (f c) (Some True)) chunks) = []"
  by (induction chunks) (simp_all add: terminal_def)

text \<open>
  C4, as stated, fails: the loop is \<^verbatim>\<open>async for\<close>, which takes an asynchronous
  iterable only. Over the list \<^verbatim>\<open>["a", "b"]\<close> the start message is sent and then
  \<^verbatim>\<open>TypeError\<close> is raised: one message, not four, and no body message.
\<close>

theorem StreamingResponse_call_sync_list:
  "StreamingResponse_call
     (StreamingResponse_init None (Sync [Str (unicode ''a''), Str (unicode ''b'')]) 200 None None) =
   ([Start 200 []], Some TypeError)"
  by (simp add: StreamingResponse_call_def StreamingResponse_init_def init_headers_def)

text \<open>
  C4, amended. A \<^verbatim>\<open>StreamingResponse\<close> over an asynchronous iterable that produces a
  finite sequence of chunks, each \<^verbatim>\<open>bytes\<close> or a \<^verbatim>\<open>str\<close> without a surrogate,
  sends, without error: first the start message with the status code and the header
  sequence fixed at construction; then, for each chunk in order, a body message with
  \<^verbatim>\<open>more_body\<close> true carrying the chunk, encoded in the charset when it is a
  \<^verbatim>\<open>str\<close> (this is what \<^verbatim>\<open>render\<close> returns for it); then one body message with
  an empty body and \<^verbatim>\<open>more_body\<close> false, which is the only terminal message. Over
  an asynchronous producer of \<^verbatim>\<open>"a"\<close> and \<^verbatim>\<open>"b"\<close> these are four messages.
\<close>

theorem StreamingResponse_call_messages:
  assumes "list_all encodable chunks"
  shows "StreamingResponse_call (StreamingResponse_init cls (Async chunks) status headers mt) =
           (Start status (init_headers None (case mt of None \<Rightarrow> cls | Some x \<Rightarrow> Some x) headers) #
            map (\<lambda>c. Body (projr (render c)) (Some True)) chunks @ [Body [] (Some False)],
            None) \<and>
         filter terminal
           (fst (StreamingResponse_call (StreamingResponse_init cls (Async chunks) status headers mt))) =
           [Body [] (Some False)]"
  using assms
  by (simp add: StreamingResponse_call_def StreamingResponse_init_def Let_def
        stream_chunks_all_encodable filter_terminal_non_terminal terminal_def)

theorem StreamingResponse_call_messages_witness:
  "list_all encodable [Str (unicode ''a''), Str (unicode ''b'')] \<and>
   StreamingResponse_call
     (StreamingResponse_init None (Async [Str (unicode ''a''), Str (unicode ''b'')]) 200 None None) =
     ([Start 200 [], Body ''a'' (Some True), Body ''b'' (Some True), Body [] (Some False)], None) \<and>
   filter terminal
     (fst (StreamingResponse_call
        (StreamingResponse_init None (Async [Str (unicode ''a''), Str (unicode ''b'')]) 200 None None))) =
     [Body [] (Some False)]"
proof -
  have h: "list_all encodable [Str (unicode ''a''), Str (unicode ''b'')]"
    by (simp add: unicode_no_surrogate)
  have a: "encode_utf8 ''a'' = ''a''" and b: "encode_utf8 ''b'' = ''b''"
    by code_simp+
  have e: "map (\<lambda>c. Body (projr (render c)) (Some True)) [Str (unicode ''a''), Str (unicode ''b'')] =
      [Body ''a'' (Some True), Body ''b'' (Some True)]"
    by (simp add: encode_text_unicode a b del: encode_text.simps)
  have i: "init_headers None (case None of None \<Rightarrow> None | Some x \<Rightarrow> Some x) None = []"
    by code_simp
  from StreamingResponse_call_messages [OF h, of None 200 None None] h
  show ?thesis
    unfolding e i by (simp add: terminal_def)
qed

section \<open>Headers and transmission of a FileResponse\<close>

text \<open>Every message of the read loop is a body message whose \<^verbatim>\<open>more_body\<close> is
  false, whatever the size of the file.\<close>

lemma read_loop_all_terminal:
  "m \<in> set (read_loop data) \<Longrightarrow> terminal m"
proof (induction data rule: read_loop.induct)
  case (1 data)
  then show ?case
    by (subst (asm) (2) read_loop.simps) (auto simp: Let_def terminal_def split: if_splits)
qed

text \<open>
  C2. The claim is that, for a file larger than the chunk size, every body message but the
  last has \<^verbatim>\<open>more_body\<close> true. The loop computes \<^verbatim>\<open>more_body\<close> from the size
  of the chunk but sends the literal \<^verbatim>\<open>False\<close>: a file of 4097 bytes is sent as a
  chunk of 4096 bytes and a chunk of 1 byte, and both messages have \<^verbatim>\<open>more_body\<close>
  false.
\<close>

theorem read_loop_two_chunks:
  "chunk_size < length (replicate 4097 (CHR ''a'')) \<and>
   read_loop (replicate 4097 (CHR ''a'')) =
     [Body (replicate 4096 (CHR ''a'')) (Some False), Body ''a'' (Some False)] \<and>
   map more (read_loop (replicate 4097 (CHR ''a''))) = [False, False]"
  by (simp add: read_loop.simps chunk_size_def)

text \<open>The header names that \<^verbatim>\<open>FileResponse\<close> sets are in lower case; so are all
  names of a synthesized sequence, and each of them is \<^verbatim>\<open>content-length\<close>,
  \<^verbatim>\<open>content-type\<close> or a name the caller supplied.\<close>

lemma lower_names:
  "lower ''content-disposition'' = ''content-disposition''"
  "lower ''last-modified'' = ''last-modified''"
  "lower ''etag'' = ''etag''"
  by code_simp+

lemma init_headers_names_lower:
  "n \<in> fst ` set (init_headers bdy mt headers) \<Longrightarrow> lower n = n"
proof (cases headers)
  case None
  assume "n \<in> fst ` set (init_headers bdy mt headers)"
  then have "n \<in> set (map fst (init_headers bdy mt None))"
    using None by simp
  then show ?thesis
    unfolding init_headers_None_names
    by (auto simp: lower_content_length lower_content_type split: option.splits)
next
  case (Some hs)
  assume "n \<in> fst ` set (init_headers bdy mt headers)"
  then have "n \<in> set (map fst (init_headers bdy mt (Some hs)))"
    using Some by simp
  then show ?thesis
    unfolding init_headers_Some_names
    by (auto simp: lower_content_length lower_content_type lower_idem split: option.splits if_splits)
qed

lemma init_headers_names_supplied:
  "n \<in> fst ` set (init_headers bdy mt headers) \<Longrightarrow>
   n = ''content-length'' \<or> n = ''content-type'' \<or> supplies headers n"
proof (cases headers)
  case None
  assume "n \<in> fst ` set (init_headers bdy mt headers)"
  then have "n \<in> set (map fst (init_headers bdy mt None))"
    using None by simp
  then show ?thesis
    unfolding init_headers_None_names by (auto split: option.splits)
next
  case (Some hs)
  assume "n \<in> fst ` set (init_headers bdy mt headers)"
  then have "n \<in> set (map fst (init_headers bdy mt (Some hs)))"
    using Some by simp
  then show ?thesis
    unfolding init_headers_Some_names
    by (auto simp: supplies_def Some split: option.splits if_splits)
qed

text \<open>\<^verbatim>\<open>setdefault\<close> on a sequence whose names are all in lower case, as every
  sequence the constructors build is.\<close>

lemma setdefault_absent:
  assumes "\<forall>h \<in> set hs. lower (fst h) = fst h" and "lower key = key" and "key \<notin> fst ` set hs"
  shows "setdefault hs key val = hs @ [(key, val)]"
proof -
  from assms have "lower key \<notin> set (map (\<lambda>h. lower (fst h)) hs)"
    by force
  then show ?thesis
    using assms(2) by (simp add: setdefault_def encode_latin1_def)
qed

lemma set_stat_headers_absent:
  assumes low: "\<forall>h \<in> set hs. lower (fst h) = fst h"
    and "''content-length'' \<notin> fst ` set hs"
    and "''last-modified'' \<notin> fst ` set hs"
    and "''etag'' \<notin> fst ` set hs"
  shows "set_stat_headers lib hs st =
           hs @ [(''content-length'', str_int (st_size st)),
                 (''last-modified'', formatdate lib (st_mtime st)),
                 (''etag'', md5_hexdigest lib
                    (encode_utf8 (str_float lib (st_mtime st) @ ''-'' @ str_int (st_size st))))]"
proof -
  let ?cl = "(''content-length'', str_int (st_size st))"
  let ?lm = "(''last-modified'', formatdate lib (st_mtime st))"
  have 1: "setdefault hs ''content-length'' (str_int (st_size st)) = hs @ [?cl]"
    using assms by (intro setdefault_absent) (simp_all add: lower_content_length)
  have low1: "\<forall>h \<in> set (hs @ [?cl]). lower (fst h) = fst h"
    using low by (simp add: lower_content_length)
  have 2: "setdefault (hs @ [?cl]) ''last-modified'' (formatdate lib (st_mtime st)) = hs @ [?cl, ?lm]"
    using assms low1 by (subst setdefault_absent) (simp_all add: lower_names)
  have low2: "\<forall>h \<in> set (hs @ [?cl, ?lm]). lower (fst h) = fst h"
    using low by (simp add: lower_content_length lower_names)
  have 3: "setdefault (hs @ [?cl, ?lm]) ''etag'' v = hs @ [?cl, ?lm, (''etag'', v)]" for v
    using assms low2 by (subst setdefault_absent) (simp_all add: lower_names)
  show ?thesis
    by (simp add: set_stat_headers_def Let_def 1 2 3)
qed


lemma FileResponse_init_raw_headers:
  "raw_headers (FileResponse_init lib p headers mt fname st) =
     (let hs = init_headers None (media_type (FileResponse_init lib p headers mt fname st)) headers;
          hs = (case fname of
                  Some f \<Rightarrow> setdefault hs ''content-disposition'' (content_disposition f)
                | None \<Rightarrow> hs)
      in case st of Some s \<Rightarrow> set_stat_headers lib hs s | None \<Rightarrow> hs)"
  by (simp add: FileResponse_init_def Let_def)

lemma FileResponse_init_fields:
  "status_code (FileResponse_init lib p headers mt fname st) = 200"
  "path (FileResponse_init lib p headers mt fname st) = p"
  "stat_result (FileResponse_init lib p headers mt fname st) = st"
  by (simp_all add: FileResponse_init_def Let_def)

lemma setdefault_names_lower:
  assumes "\<forall>h \<in> set hs. lower (fst h) = fst h"
  shows "\<forall>h \<in> set (setdefault hs key val). lower (fst h) = fst h"
  using assms by (auto simp: setdefault_def encode_latin1_def lower_idem)

lemma setdefault_names:
  "fst ` set (setdefault hs key val) \<subseteq> insert (lower key) (fst ` set hs)"
  by (auto simp: setdefault_def encode_latin1_def)

text \<open>
  C6, as stated, fails: the cache headers and the disposition are set with
  \<^verbatim>\<open>setdefault\<close>, so a header of the caller stays. With
  \<^verbatim>\<open>headers={"Content-Length": "5"}\<close> and a stat result of size 10 the sequence holds
  \<^verbatim>\<open>content-length: 5\<close> and no \<^verbatim>\<open>content-length: 10\<close>.
\<close>

theorem FileResponse_init_caller_content_length:
  "(''content-length'', ''5'') \<in> set (raw_headers
      (FileResponse_init example_lib ''x.txt'' (Some [(''Content-Length'', ''5'')]) None
         (Some ''x.txt'') (Some example_stat))) \<and>
   (''content-length'', str_int (st_size example_stat)) \<notin> set (raw_headers
      (FileResponse_init example_lib ''x.txt'' (Some [(''Content-Length'', ''5'')]) None
         (Some ''x.txt'') (Some example_stat)))"
  by code_simp

text \<open>
  C6, amended. A \<^verbatim>\<open>FileResponse\<close> constructed with a stat result and a file name,
  whose caller supplied none of the names \<^verbatim>\<open>content-disposition\<close>,
  \<^verbatim>\<open>content-length\<close>, \<^verbatim>\<open>last-modified\<close> and \<^verbatim>\<open>etag\<close> (in any case), has as
  its header sequence, before any transmission, the synthesized sequence followed by:
  \<^verbatim>\<open>content-disposition\<close> with \<^verbatim>\<open>attachment; filename="<filename>"\<close>,
  \<^verbatim>\<open>content-length\<close> with the decimal size, \<^verbatim>\<open>last-modified\<close> with
  \<^verbatim>\<open>formatdate(mtime, usegmt=True)\<close>, and \<^verbatim>\<open>etag\<close> with the md5 hex digest of
  \<^verbatim>\<open>str(mtime) + "-" + str(size)\<close>. None of the four names occurs in the synthesized
  sequence, so these are the only headers of those names.
\<close>

theorem FileResponse_init_stat_headers:
  assumes "\<not> supplies headers ''content-disposition''"
    and "\<not> supplies headers ''content-length''"
    and "\<not> supplies headers ''last-modified''"
    and "\<not> supplies headers ''etag''"
  shows "raw_headers (FileResponse_init lib p headers mt (Some f) (Some st)) =
           init_headers None (media_type (FileResponse_init lib p headers mt (Some f) (Some st))) headers @
           [(''content-disposition'', content_disposition f),
            (''content-length'', str_int (st_size st)),
            (''last-modified'', formatdate lib (st_mtime st)),
            (''etag'', md5_hexdigest lib
               (encode_utf8 (str_float lib (st_mtime st) @ ''-'' @ str_int (st_size st))))] \<and>
         set [''content-disposition'', ''content-length'', ''last-modified'', ''etag''] \<inter>
           fst ` set (init_headers None
             (media_type (FileResponse_init lib p headers mt (Some f) (Some st))) headers) = {}"
proof -
  let ?m = "media_type (FileResponse_init lib p headers mt (Some f) (Some st))"
  let ?hs = "init_headers None ?m headers"
  let ?cd = "(''content-disposition'', content_disposition f)"
  have low: "\<forall>h \<in> set ?hs. lower (fst h) = fst h"
    using init_headers_names_lower by blast
  have no_length: "''content-length'' \<notin> fst ` set ?hs"
  proof
    assume "''content-length'' \<in> fst ` set ?hs"
    then have "''content-length'' \<in> set (map fst ?hs)"
      by simp
    then show False
      using assms(2)
      by (cases headers)
         (auto simp: init_headers_None_names init_headers_Some_names supplies_def
               split: option.splits if_splits)
  qed
  have absent: "''content-disposition'' \<notin> fst ` set ?hs"
      "''last-modified'' \<notin> fst ` set ?hs" "''etag'' \<notin> fst ` set ?hs"
    using assms init_headers_names_supplied [of _ None ?m headers] by fastforce+
  have 1: "setdefault ?hs ''content-disposition'' (content_disposition f) = ?hs @ [?cd]"
    using low absent by (intro setdefault_absent) (simp_all add: lower_names)
  have low1: "\<forall>h \<in> set (?hs @ [?cd]). lower (fst h) = fst h"
    using low by (simp add: lower_names)
  have 2: "set_stat_headers lib (?hs @ [?cd]) st =
      (?hs @ [?cd]) @ [(''content-length'', str_int (st_size st)),
                 (''last-modified'', formatdate lib (st_mtime st)),
                 (''etag'', md5_hexdigest lib
                    (encode_utf8 (str_float lib (st_mtime st) @ ''-'' @ str_int (st_size st))))]"
    using low1 no_length absent by (intro set_stat_headers_absent) simp_all
  have "raw_headers (FileResponse_init lib p headers mt (Some f) (Some st)) =
      set_stat_headers lib (setdefault ?hs ''content-disposition'' (content_disposition f)) st"
    by (subst FileResponse_init_raw_headers) (simp add: Let_def)
  then show ?thesis
    using no_length absent by (simp add: 1 2)
qed


theorem FileResponse_init_stat_headers_witness:
  "\<not> supplies None ''content-disposition'' \<and>
   \<not> supplies None ''content-length'' \<and>
   \<not> supplies None ''last-modified'' \<and>
   \<not> supplies None ''etag'' \<and>
   raw_headers (FileResponse_init example_lib ''/tmp/x.txt'' None None (Some ''x.txt'') (Some example_stat)) =
     [(''content-type'', ''text/plain; charset=utf-8''),
      (''content-disposition'', content_disposition ''x.txt''),
      (''content-length'', ''10''),
      (''last-modified'', ''Thu, 01 Jan 1970 00:16:40 GMT''),
      (''etag'', ''e80786ba5d5115a725663846526304be'')]"
proof -
  have h: "\<not> supplies None n" for n
    by (simp add: supplies_def)
  have m: "init_headers None
      (media_type (FileResponse_init example_lib ''/tmp/x.txt'' None None (Some ''x.txt'') (Some example_stat)))
      None = [(''content-type'', ''text/plain; charset=utf-8'')]"
    by code_simp
  have v: "str_int (st_size example_stat) = ''10''"
      "formatdate example_lib (st_mtime example_stat) = ''Thu, 01 Jan 1970 00:16:40 GMT''"
      "md5_hexdigest example_lib (encode_utf8
         (str_float example_lib (st_mtime example_stat) @ ''-10'')) =
       ''e80786ba5d5115a725663846526304be''"
    by code_simp+
  from FileResponse_init_stat_headers [OF h h h h, of example_lib "''/tmp/x.txt''" None "''x.txt''" example_stat]
  show ?thesis
    using h by (simp add: m v)
qed


text \<open>The header sequence of a \<^verbatim>\<open>FileResponse\<close> constructed without a stat
  result.\<close>

lemma FileResponse_init_names_lower:
  "\<forall>h \<in> set (raw_headers (FileResponse_init lib p headers mt fname None)). lower (fst h) = fst h"
proof -
  have base: "\<forall>h \<in> set (init_headers None m headers). lower (fst h) = fst h" for m
    using init_headers_names_lower by force
  show ?thesis
  proof (cases fname)
    case None
    then show ?thesis
      using base by (simp add: FileResponse_init_raw_headers Let_def)
  next
    case (Some f)
    then show ?thesis
      using setdefault_names_lower [OF base]
      by (simp add: FileResponse_init_raw_headers Let_def)
  qed
qed

text \<open>Its names are \<^verbatim>\<open>content-type\<close>, \<^verbatim>\<open>content-disposition\<close> and names the
  caller supplied: the cache headers are absent unless the caller supplied them.\<close>

lemma FileResponse_init_no_stat_names:
  assumes "n \<in> fst ` set (raw_headers (FileResponse_init lib p headers mt fname None))"
  shows "n = ''content-type'' \<or> n = ''content-disposition'' \<or> supplies headers n"
proof -
  let ?hs = "init_headers None (media_type (FileResponse_init lib p headers mt fname None)) headers"
  have "n \<in> insert ''content-disposition'' (fst ` set ?hs)"
  proof (cases fname)
    case None
    with assms show ?thesis
      by (simp add: FileResponse_init_raw_headers Let_def)
  next
    case (Some f)
    with assms have "n \<in> fst ` set (setdefault ?hs ''content-disposition'' (content_disposition f))"
      by (simp add: FileResponse_init_raw_headers Let_def)
    with setdefault_names [of ?hs "''content-disposition''" "content_disposition f"]
    show ?thesis
      by (auto simp: lower_names)
  qed
  then have "n = ''content-disposition'' \<or> n \<in> set (map fst ?hs)"
    by auto
  then show ?thesis
    by (cases headers)
       (auto simp: init_headers_None_names init_headers_Some_names supplies_def
             split: option.splits if_splits)
qed

text \<open>
  C7, as stated, fails: the cache headers are set with \<^verbatim>\<open>setdefault\<close>, so headers
  of the caller stay. With \<^verbatim>\<open>headers={"ETag": "abc", "Content-Length": "5"}\<close> and a
  file of 10 bytes, the start message carries \<^verbatim>\<open>etag: abc\<close> and
  \<^verbatim>\<open>content-length: 5\<close>, not the values of the fetched stat result; only
  \<^verbatim>\<open>last-modified\<close> comes from it.
\<close>

theorem FileResponse_call_caller_cache_headers:
  "take 2 (fst (FileResponse_call example_lib example_fs
     (FileResponse_init example_lib ''x.txt''
        (Some [(''ETag'', ''abc''), (''Content-Length'', ''5'')]) None None None))) =
   [Stat ''x.txt'',
    Send (Start 200
      [(''etag'', ''abc''), (''content-length'', ''5''),
       (''last-modified'', ''Thu, 01 Jan 1970 00:16:40 GMT'')])]"
  by code_simp

text \<open>
  C7, amended. The transmission of a \<^verbatim>\<open>FileResponse\<close> constructed without a stat
  result first calls \<^verbatim>\<open>aio_stat\<close> on the path. When that call raises, the
  transmission ends with the exception and nothing is sent. When it returns a stat result,
  the next event is the start message, with status 200 and the headers that
  \<^verbatim>\<open>set_stat_headers\<close> gives for that stat result. When the caller supplied none of
  the names \<^verbatim>\<open>content-length\<close>, \<^verbatim>\<open>last-modified\<close> and \<^verbatim>\<open>etag\<close> (in any
  case), these headers are absent at construction, and the headers of the start message
  are the headers of the construction followed by \<^verbatim>\<open>content-length\<close>,
  \<^verbatim>\<open>last-modified\<close> and \<^verbatim>\<open>etag\<close> computed from the stat result that the call
  returned.
\<close>

theorem FileResponse_call_fetches_stat:
  "let r = FileResponse_init lib p headers mt fname None
   in case aio_stat fs p of
        Inl e \<Rightarrow> FileResponse_call lib fs r = ([Stat p], Some e)
      | Inr st \<Rightarrow>
          take 2 (fst (FileResponse_call lib fs r)) =
            [Stat p, Send (Start 200 (set_stat_headers lib (raw_headers r) st))] \<and>
          (\<not> supplies headers ''content-length'' \<and>
           \<not> supplies headers ''last-modified'' \<and>
           \<not> supplies headers ''etag'' \<longrightarrow>
             set [''content-length'', ''last-modified'', ''etag''] \<inter>
               fst ` set (raw_headers r) = {} \<and>
             set_stat_headers lib (raw_headers r) st =
               raw_headers r @
               [(''content-length'', str_int (st_size st)),
                (''last-modified'', formatdate lib (st_mtime st)),
                (''etag'', md5_hexdigest lib
                   (encode_utf8 (str_float lib (st_mtime st) @ ''-'' @ str_int (st_size st))))])"
proof -
  let ?r = "FileResponse_init lib p headers mt fname None"
  have call: "(case aio_stat fs p of
            Inl e \<Rightarrow> FileResponse_call lib fs ?r = ([Stat p], Some e)
          | Inr st \<Rightarrow>
              take 2 (fst (FileResponse_call lib fs ?r)) =
                [Stat p, Send (Start 200 (set_stat_headers lib (raw_headers ?r) st))])"
    by (simp add: FileResponse_call_def FileResponse_init_fields Let_def split: sum.splits)
  have cache: "set [''content-length'', ''last-modified'', ''etag''] \<inter>
               fst ` set (raw_headers ?r) = {} \<and>
      set_stat_headers lib (raw_headers ?r) st =
        raw_headers ?r @
        [(''content-length'', str_int (st_size st)),
         (''last-modified'', formatdate lib (st_mtime st)),
         (''etag'', md5_hexdigest lib
            (encode_utf8 (str_float lib (st_mtime st) @ ''-'' @ str_int (st_size st))))]"
    if "\<not> supplies headers ''content-length''" "\<not> supplies headers ''last-modified''"
      "\<not> supplies headers ''etag''" for st
  proof -
    have absent: "''content-length'' \<notin> fst ` set (raw_headers ?r)"
        "''last-modified'' \<notin> fst ` set (raw_headers ?r)"
        "''etag'' \<notin> fst ` set (raw_headers ?r)"
      using that FileResponse_init_no_stat_names [of _ lib p headers mt fname] by fastforce+
    have "set_stat_headers lib (raw_headers ?r) st =
        raw_headers ?r @
        [(''content-length'', str_int (st_size st)),
         (''last-modified'', formatdate lib (st_mtime st)),
         (''etag'', md5_hexdigest lib
            (encode_utf8 (str_float lib (st_mtime st) @ ''-'' @ str_int (st_size st))))]"
      using FileResponse_init_names_lower absent by (rule set_stat_headers_absent)
    with absent show ?thesis
      by simp
  qed
  from call cache show ?thesis
    unfolding Let_def by (auto split: sum.splits)
qed

theorem FileResponse_call_fetches_stat_witness:
  "\<not> supplies None ''content-length'' \<and>
   \<not> supplies None ''last-modified'' \<and>
   \<not> supplies None ''etag'' \<and>
   raw_headers (FileResponse_init example_lib ''x.txt'' None None None None) =
     [(''content-type'', ''text/plain; charset=utf-8'')] \<and>
   take 2 (fst (FileResponse_call example_lib example_fs
                  (FileResponse_init example_lib ''x.txt'' None None None None))) =
     [Stat ''x.txt'',
      Send (Start 200
        [(''content-type'', ''text/plain; charset=utf-8''),
         (''content-length'', ''10''),
         (''last-modified'', ''Thu, 01 Jan 1970 00:16:40 GMT''),
         (''etag'', ''e80786ba5d5115a725663846526304be'')])]"
proof -
  have h: "\<not> supplies None n" for n
    by (simp add: supplies_def)
  have r: "raw_headers (FileResponse_init example_lib ''x.txt'' None None None None) =
      [(''content-type'', ''text/plain; charset=utf-8'')]"
    by code_simp
  have s: "aio_stat example_fs ''x.txt'' = Inr example_stat"
    by code_simp
  have v: "str_int (st_size example_stat) = ''10''"
      "formatdate example_lib (st_mtime example_stat) = ''Thu, 01 Jan 1970 00:16:40 GMT''"
      "md5_hexdigest example_lib (encode_utf8
         (str_float example_lib (st_mtime example_stat) @ ''-10'')) =
       ''e80786ba5d5115a725663846526304be''"
    by code_simp+
  from FileResponse_call_fetches_stat [of example_lib "''x.txt''" None None None example_fs]
  have "take 2 (fst (FileResponse_call example_lib example_fs
                  (FileResponse_init example_lib ''x.txt'' None None None None))) =
      [Stat ''x.txt'',
       Send (Start 200
         (set_stat_headers example_lib
            (raw_headers (FileResponse_init example_lib ''x.txt'' None None None None)) example_stat))] \<and>
    set_stat_headers example_lib
      (raw_headers (FileResponse_init example_lib ''x.txt'' None None None None)) example_stat =
    raw_headers (FileResponse_init example_lib ''x.txt'' None None None None) @
      [(''content-length'', str_int (st_size example_stat)),
       (''last-modified'', formatdate example_lib (st_mtime example_stat)),
       (''etag'', md5_hexdigest example_lib
          (encode_utf8 (str_float example_lib (st_mtime example_stat) @ ''-'' @
             str_int (st_size example_stat))))]"
    using h by (simp add: Let_def s)
  then show ?thesis
    using h by (simp add: r v)
qed

text \<open>The status codes of the start messages of a transmission.\<close>

lemma start_statuses_append:
  "start_statuses (xs @ ys) = start_statuses xs @ start_statuses ys"
  by (induction xs rule: start_statuses.induct) simp_all

lemma start_statuses_bodies:
  "\<forall>m \<in> set ms. is_body m \<Longrightarrow> start_statuses (map Send ms) = []"
proof (induction ms)
  case Nil
  show ?case by simp
next
  case (Cons m ms)
  then show ?case by (cases m) simp_all
qed

lemma start_statuses_read_loop:
  "start_statuses (map Send (read_loop data)) = []"
  using read_loop_all_terminal by (intro start_statuses_bodies) (auto simp: terminal_def)

text \<open>
  C10. The constructor of \<^verbatim>\<open>FileResponse\<close> has no status code among its arguments
  and sets the status code to 200, whatever the path, headers, media type, file name and
  stat result. A transmission sends one start message, with status 200; it sends none
  only when the response has no stat result and \<^verbatim>\<open>aio_stat\<close> raises.
\<close>

theorem FileResponse_status_200:
  "status_code (FileResponse_init lib p headers mt fname st) = 200 \<and>
   start_statuses (fst (FileResponse_call lib fs (FileResponse_init lib p headers mt fname st))) =
     (if st = None \<and> isl (aio_stat fs p) then [] else [200])"
  by (simp add: FileResponse_call_def FileResponse_init_fields Let_def start_statuses_append
        start_statuses_read_loop split: option.splits sum.splits)

end
